theory Spec2Isabelle
  imports Complex_Main "HOL-Library.Sublist"
begin

section \<open>Python values\<close>

text \<open>
  The notebooks are Python. An exception is a value of type \<open>error\<close>, and a function that
  may raise returns \<open>error + 'a\<close> with \<open>Inl\<close> for the exception. \<open>External\<close> is whatever an
  outside capability (the search index, the completion API) raises.
\<close>

datatype error = ZeroDivisionError | IndexError | KeyError | External string

text \<open>
  A finite Python \<open>float\<close> (IEEE binary64) is modelled by the rational number it denotes.
  \<open>fl q\<close> is the binary64 value nearest to \<open>q\<close>, ties to even: \<open>q\<close> is scaled so that its integer
  part has 53 bits, rounded to an integer, and scaled back. The exponent range (overflow,
  subnormals) is not modelled; every quotient below lies between \<open>2\<^sup>-\<^sup>6\<^sup>4\<close> and \<open>1\<close>.
\<close>

definition round_half_even :: "rat \<Rightarrow> int" where
  "round_half_even q =
     (let f = \<lfloor>q\<rfloor>; d = q - of_int f
      in if d < 1 / 2 then f else if 1 / 2 < d then f + 1 else if even f then f else f + 1)"

text \<open>\<open>int.bit_length\<close>: the number of binary digits of a natural number.\<close>

function bit_length :: "nat \<Rightarrow> nat" where
  "bit_length n = (if n = 0 then 0 else Suc (bit_length (n div 2)))"
  by pat_completeness auto
termination
  by (relation "measure (\<lambda>n. n)") auto

declare bit_length.simps [simp del]

text \<open>\<open>ilog2 q\<close> is \<open>\<lfloor>log\<^sub>2 q\<rfloor>\<close> for a positive rational \<open>q\<close>.\<close>

definition ilog2 :: "rat \<Rightarrow> int" where
  "ilog2 q =
     (if 1 \<le> q then int (bit_length (nat \<lfloor>q\<rfloor>)) - 1
      else - int (bit_length (nat (\<lceil>1 / q\<rceil> - 1))))"

definition pow2 :: "int \<Rightarrow> rat" where
  "pow2 e = (if 0 \<le> e then 2 ^ nat e else 1 / 2 ^ nat (- e))"

definition fl :: "rat \<Rightarrow> rat" where
  "fl q =
     (if q = 0 then 0
      else let e = ilog2 \<bar>q\<bar> - 52 in of_int (round_half_even (q / pow2 e)) * pow2 e)"

text \<open>
  \<open>a / b\<close> on two integers, and on two floats that hold integers: ZeroDivisionError on a
  zero divisor, otherwise the correctly rounded quotient.
\<close>

definition py_truediv :: "nat \<Rightarrow> nat \<Rightarrow> error + rat" where
  "py_truediv a b = (if b = 0 then Inl ZeroDivisionError else Inr (fl (of_nat a / of_nat b)))"

text \<open>
  The builtin \<open>round(x, 2)\<close> on a float: the exact value of \<open>x\<close> is rounded to two decimals,
  ties to even, and the decimal is converted back to the nearest float.
\<close>

definition py_round2 :: "rat \<Rightarrow> rat" where
  "py_round2 x = fl (of_int (round_half_even (x * 100)) / 100)"

text \<open>
  numpy's \<open>round(x, 2)\<close>, which \<open>DataFrame.round(2)\<close> applies to a float column: multiply by
  \<open>100\<close>, round to the nearest integer (ties to even), divide by \<open>100\<close>, each step in binary64.
\<close>

definition np_round2 :: "rat \<Rightarrow> rat" where
  "np_round2 x = fl (of_int (round_half_even (fl (x * 100))) / 100)"

section \<open>Tool-selection metrics (notebook "Evaluating Tool Selection")\<close>

text \<open>
  \<^verbatim>\<open>
  def calculate_precision(model_tool_call, expected_tool_call):
      if not model_tool_call:
          return 0.0
      correct_calls = sum(1 for tool in model_tool_call if tool in expected_tool_call)
      return round(correct_calls / len(model_tool_call), 2)
  \<close>
\<close>

definition calculate_precision :: "'a list \<Rightarrow> 'a list \<Rightarrow> error + rat" where
  "calculate_precision model_tool_call expected_tool_call =
     (if model_tool_call = [] then Inr 0
      else
        let correct_calls = length (filter (\<lambda>tool. tool \<in> set expected_tool_call) model_tool_call)
        in case py_truediv correct_calls (length model_tool_call) of
             Inl e \<Rightarrow> Inl e
           | Inr q \<Rightarrow> Inr (py_round2 q))"

text \<open>
  \<^verbatim>\<open>
  def calculate_recall(model_tool_call, expected_tool_call):
      if not expected_tool_call:
          return 1.0
      if not model_tool_call:
          return 0.0
      correct_calls = sum(1 for tool in expected_tool_call if tool in model_tool_call)
      return round(correct_calls / len(expected_tool_call), 2)
  \<close>
\<close>

definition calculate_recall :: "'a list \<Rightarrow> 'a list \<Rightarrow> error + rat" where
  "calculate_recall model_tool_call expected_tool_call =
     (if expected_tool_call = [] then Inr 1
      else if model_tool_call = [] then Inr 0
      else
        let correct_calls = length (filter (\<lambda>tool. tool \<in> set model_tool_call) expected_tool_call)
        in case py_truediv correct_calls (length expected_tool_call) of
             Inl e \<Rightarrow> Inl e
           | Inr q \<Rightarrow> Inr (py_round2 q))"

section \<open>Retrieval metrics (notebook "hybrid-vs-vector")\<close>

text \<open>
  \<^verbatim>\<open>
  def recall(retrieved, expected):
      return float(len(set(retrieved).intersection(set(expected)))) / len(expected)
  \<close>
\<close>

definition recall :: "'a list \<Rightarrow> 'a list \<Rightarrow> error + rat" where
  "recall retrieved expected =
     py_truediv (card (set retrieved \<inter> set expected)) (length expected)"

text \<open>
  \<^verbatim>\<open>
  def mrr(retrieved, expected):
      for rank, doc_id in enumerate(retrieved, 1):
          if doc_id in expected:
              return 1.0 / rank
      return 0.0
  \<close>
  \<open>mrr_loop rank\<close> is the loop with \<open>enumerate\<close>'s counter at \<open>rank\<close>.
\<close>

fun mrr_loop :: "nat \<Rightarrow> 'a list \<Rightarrow> 'a list \<Rightarrow> error + rat" where
  "mrr_loop rank [] expected = Inr 0"
| "mrr_loop rank (doc_id # rest) expected =
     (if doc_id \<in> set expected then py_truediv 1 rank
      else mrr_loop (Suc rank) rest expected)"

definition mrr :: "'a list \<Rightarrow> 'a list \<Rightarrow> error + rat" where
  "mrr retrieved expected = mrr_loop 1 retrieved expected"

text \<open>
  \<^verbatim>\<open>
  def sanitize_query(query):
      # Remove characters that break LanceDB FTS queries
      return re.sub(r"['\"\\]", "", query)
  \<close>
  The three characters removed are the apostrophe (0x27), the double quote (0x22) and the
  backslash (0x5C).
\<close>

definition sanitize_query :: "string \<Rightarrow> string" where
  "sanitize_query query =
     filter (\<lambda>c. c \<noteq> CHR 0x27 \<and> c \<noteq> CHR 0x22 \<and> c \<noteq> CHR 0x5C) query"

text \<open>
  The LanceDB table is an outside capability. Its three query forms are the fields of a
  record; each returns the list of ids of the top \<open>k\<close> rows, or raises.
  \<^verbatim>\<open>
  def search_semantic(tbl, query, embedding, k=5):
      return tbl.search(embedding).limit(k).to_pandas()["id"].tolist()
  def search_lexical(tbl, query, k=5):
      return tbl.search(query=sanitize_query(query), query_type="fts").limit(k).to_pandas()["id"].tolist()
  def search_hybrid(tbl, query, embedding, k=5):
      return tbl.search(query_type="hybrid").text(sanitize_query(query)).vector(embedding).limit(k).to_pandas()["id"].tolist()
  \<close>
\<close>

record ('e, 'a) table =
  vector_search :: "'e \<Rightarrow> int \<Rightarrow> error + 'a list"
  fts_search :: "string \<Rightarrow> int \<Rightarrow> error + 'a list"
  hybrid_search :: "string \<Rightarrow> 'e \<Rightarrow> int \<Rightarrow> error + 'a list"

definition search_semantic :: "('e, 'a) table \<Rightarrow> string \<Rightarrow> 'e \<Rightarrow> int \<Rightarrow> error + 'a list" where
  "search_semantic tbl query embedding k = vector_search tbl embedding k"

definition search_lexical :: "('e, 'a) table \<Rightarrow> string \<Rightarrow> int \<Rightarrow> error + 'a list" where
  "search_lexical tbl query k = fts_search tbl (sanitize_query query) k"

definition search_hybrid :: "('e, 'a) table \<Rightarrow> string \<Rightarrow> 'e \<Rightarrow> int \<Rightarrow> error + 'a list" where
  "search_hybrid tbl query embedding k = hybrid_search tbl (sanitize_query query) embedding k"

text \<open>\<open>xs[i]\<close> for a non-negative index: IndexError out of range.\<close>

definition py_index :: "'a list \<Rightarrow> nat \<Rightarrow> error + 'a" where
  "py_index xs i = (if i < length xs then Inr (xs ! i) else Inl IndexError)"

text \<open>
  One entry \<^verbatim>\<open>{"recall": recall(search(...), eid), "mrr": mrr(search(...), eid)}\<close> of
  \<open>evaluate_search\<close>. The adapter is called once for each of the two metrics; \<open>found\<close> is
  what the call gives. The values are computed left to right.
\<close>

record metric =
  m_recall :: rat
  m_mrr :: rat

definition metric_entry :: "error + 'a list \<Rightarrow> 'a list \<Rightarrow> error + metric" where
  "metric_entry found eid =
     (case found of Inl e \<Rightarrow> Inl e | Inr retrieved \<Rightarrow>
      case recall retrieved eid of Inl e \<Rightarrow> Inl e | Inr r \<Rightarrow>
      case found of Inl e \<Rightarrow> Inl e | Inr retrieved' \<Rightarrow>
      case mrr retrieved' eid of Inl e \<Rightarrow> Inl e | Inr m \<Rightarrow>
      Inr \<lparr>m_recall = r, m_mrr = m\<rparr>)"

text \<open>
  \<^verbatim>\<open>
  def evaluate_search(tbl, queries, expected_ids, embeddings, k=5):
      metrics = dict(semantic=[], lexical=[], hybrid=[])
      for idx, query in enumerate(tqdm(queries, desc="Evaluating...")):
          eid = expected_ids[idx]
          emb = embeddings[idx]
          metrics["semantic"].append({
              "recall": recall(search_semantic(tbl, query, emb, k), eid),
              "mrr": mrr(search_semantic(tbl, query, emb, k), eid)
          })
          metrics["lexical"].append({
              "recall": recall(search_lexical(tbl, query, k), eid),
              "mrr": mrr(search_lexical(tbl, query, k), eid)
          })
          metrics["hybrid"].append({
              "recall": recall(search_hybrid(tbl, query, emb, k), eid),
              "mrr": mrr(search_hybrid(tbl, query, emb, k), eid)
          })
      return metrics
  \<close>
  The dictionary has the three fixed keys, in this insertion order; it is a record of the
  three lists. \<open>evaluate_loop\<close> is the loop with \<open>enumerate\<close>'s counter at \<open>idx\<close>. Nothing
  catches an exception: it leaves the function.
\<close>

record metrics =
  semantic :: "metric list"
  lexical :: "metric list"
  hybrid :: "metric list"

fun evaluate_loop ::
  "('e, 'a) table \<Rightarrow> string list \<Rightarrow> nat \<Rightarrow> 'a list list \<Rightarrow> 'e list \<Rightarrow> int \<Rightarrow> metrics
     \<Rightarrow> error + metrics" where
  "evaluate_loop tbl [] idx expected_ids embeddings k acc = Inr acc"
| "evaluate_loop tbl (query # rest) idx expected_ids embeddings k acc =
     (case py_index expected_ids idx of Inl e \<Rightarrow> Inl e | Inr eid \<Rightarrow>
      case py_index embeddings idx of Inl e \<Rightarrow> Inl e | Inr emb \<Rightarrow>
      case metric_entry (search_semantic tbl query emb k) eid of Inl e \<Rightarrow> Inl e | Inr ms \<Rightarrow>
      case metric_entry (search_lexical tbl query k) eid of Inl e \<Rightarrow> Inl e | Inr ml \<Rightarrow>
      case metric_entry (search_hybrid tbl query emb k) eid of Inl e \<Rightarrow> Inl e | Inr mh \<Rightarrow>
      evaluate_loop tbl rest (Suc idx) expected_ids embeddings k
        \<lparr>semantic = semantic acc @ [ms], lexical = lexical acc @ [ml],
         hybrid = hybrid acc @ [mh]\<rparr>)"

definition evaluate_search ::
  "('e, 'a) table \<Rightarrow> string list \<Rightarrow> 'a list list \<Rightarrow> 'e list \<Rightarrow> int \<Rightarrow> error + metrics" where
  "evaluate_search tbl queries expected_ids embeddings k =
     evaluate_loop tbl queries 0 expected_ids embeddings k
       \<lparr>semantic = [], lexical = [], hybrid = []\<rparr>"

text \<open>
  \<open>np.mean\<close> of a list of floats computes in binary64: it adds the elements up with numpy's
  \<open>add.reduce\<close> and divides the sum by the number of elements. \<open>x + y\<close> on two floats is the
  exact sum rounded to the nearest float.
\<close>

definition fl_add :: "rat \<Rightarrow> rat \<Rightarrow> rat" where
  "fl_add x y = fl (x + y)"

text \<open>
  numpy adds a contiguous array of floats with its pairwise summation (\<open>pairwise_sum\<close> in
  the source of numpy):
  \<^verbatim>\<open>
  if (n < 8) {
      res = -0.0;
      for (i = 0; i < n; i++) res += a[i];
      return res;
  }
  else if (n <= 128) {
      r[0] = a[0]; ... r[7] = a[7];
      for (i = 8; i < n - (n % 8); i += 8) {
          r[0] += a[i + 0]; ... r[7] += a[i + 7];
      }
      res = ((r[0] + r[1]) + (r[2] + r[3])) + ((r[4] + r[5]) + (r[6] + r[7]));
      for (; i < n; i++) res += a[i];
      return res;
  }
  else {
      n2 = n / 2;
      n2 -= n2 % 8;
      return pairwise_sum(a, n2) + pairwise_sum(a + n2, n - n2);
  }
  \<close>
  \<open>add_lanes r xs\<close> is the first loop of the middle branch: \<open>r\<close> holds the eight running
  sums and \<open>xs\<close> the part of the array still to be added, eight elements at a time.
  \<open>block_sum\<close> is the middle branch. A zero has no sign here, so \<open>-0.0\<close> is \<open>0\<close>.
\<close>

function add_lanes :: "rat list \<Rightarrow> rat list \<Rightarrow> rat list" where
  "add_lanes r xs =
     (if length xs < 8 then r
      else add_lanes (map (\<lambda>(x, y). fl_add x y) (zip r (take 8 xs))) (drop 8 xs))"
  by pat_completeness auto
termination
  by (relation "measure (\<lambda>(r, xs). length xs)") auto

declare add_lanes.simps [simp del]

definition block_sum :: "rat list \<Rightarrow> rat" where
  "block_sum a =
     (let n = length a;
          r = add_lanes (take 8 a) (take (n - n mod 8 - 8) (drop 8 a));
          res = fl_add (fl_add (fl_add (r ! 0) (r ! 1)) (fl_add (r ! 2) (r ! 3)))
                       (fl_add (fl_add (r ! 4) (r ! 5)) (fl_add (r ! 6) (r ! 7)))
      in foldl fl_add res (drop (n - n mod 8) a))"

function pairwise_sum :: "rat list \<Rightarrow> rat" where
  "pairwise_sum a =
     (let n = length a
      in if n < 8 then foldl fl_add 0 a
         else if n \<le> 128 then block_sum a
         else
           let n2 = n div 2 - (n div 2) mod 8
           in fl_add (pairwise_sum (take n2 a)) (pairwise_sum (drop n2 a)))"
  by pat_completeness auto
termination
proof (relation "measure length")
  show "wf (measure length)" by simp
next
  fix a :: "rat list" and n n2
  assume "n = length a" "\<not> n < 8" "\<not> n \<le> 128" "n2 = n div 2 - n div 2 mod 8"
  then have "n2 < length a" by simp
  then show "(take n2 a, a) \<in> measure length" by simp
next
  fix a :: "rat list" and n n2
  assume h: "n = length a" "\<not> n < 8" "\<not> n \<le> 128" "n2 = n div 2 - n div 2 mod 8"
  have "n div 2 mod 8 < 8" by simp
  moreover from h have "64 \<le> n div 2" by simp
  ultimately have "0 < n2" using h(4) by linarith
  moreover from h(1,3) have "0 < length a" by auto
  ultimately have "length a - n2 < length a" by linarith
  then show "(drop n2 a, a) \<in> measure length" by simp
qed

declare pairwise_sum.simps [simp del]

text \<open>
  \<open>np.mean(xs)\<close>: the reduction starts from the identity \<open>0\<close> of \<open>add\<close> and adds the pairwise
  sum of the whole array to it; the mean is that sum divided by the count, a float
  division. On the empty list the result is \<open>nan\<close>, here \<open>None\<close>.
\<close>

definition np_mean :: "rat list \<Rightarrow> rat option" where
  "np_mean xs =
     (if xs = [] then None
      else Some (fl (fl_add 0 (pairwise_sum xs) / of_nat (length xs))))"

text \<open>
  \<^verbatim>\<open>
  def aggregate_metrics(metrics):
      return {m: {"recall": np.mean([x["recall"] for x in v]),
                  "mrr": np.mean([x["mrr"] for x in v])} for m, v in metrics.items()}
  \<close>
  \<open>items\<close> is \<open>metrics.items()\<close>, in insertion order; the result keeps that order.
\<close>

record summary =
  s_recall :: "rat option"
  s_mrr :: "rat option"

definition items :: "metrics \<Rightarrow> (string \<times> metric list) list" where
  "items d = [(''semantic'', semantic d), (''lexical'', lexical d), (''hybrid'', hybrid d)]"

definition aggregate_metrics :: "metrics \<Rightarrow> (string \<times> summary) list" where
  "aggregate_metrics d =
     map (\<lambda>(m, v). (m, \<lparr>s_recall = np_mean (map m_recall v), s_mrr = np_mean (map m_mrr v)\<rparr>))
       (items d)"

text \<open>
  The cell "Run the Experiment":
  \<^verbatim>\<open>
  k_values = [3, 5, 10]
  results = []
  for k in k_values:
      metrics = evaluate_search(tbl, queries, expected_ids, query_embeddings, k=k)
      ...
      summary = aggregate_metrics(metrics)
      for method, vals in summary.items():
          results.append({"k": k, "method": method, "recall": vals["recall"], "mrr": vals["mrr"]})
  results_df = pd.DataFrame(results)
  \<close>
  \<open>run_loop\<close> is the outer loop with the rows gathered so far; \<open>run_experiment\<close> is the cell,
  with \<open>k_values\<close> as its parameter.
\<close>

record result_row =
  row_k :: int
  row_method :: string
  row_recall :: "rat option"
  row_mrr :: "rat option"

definition summary_rows :: "int \<Rightarrow> (string \<times> summary) list \<Rightarrow> result_row list" where
  "summary_rows k s =
     map (\<lambda>(method, vals).
        \<lparr>row_k = k, row_method = method, row_recall = s_recall vals, row_mrr = s_mrr vals\<rparr>) s"

fun run_loop ::
  "('e, 'a) table \<Rightarrow> string list \<Rightarrow> 'a list list \<Rightarrow> 'e list \<Rightarrow> int list \<Rightarrow> result_row list
     \<Rightarrow> error + result_row list" where
  "run_loop tbl queries expected_ids embeddings [] results = Inr results"
| "run_loop tbl queries expected_ids embeddings (k # ks) results =
     (case evaluate_search tbl queries expected_ids embeddings k of
        Inl e \<Rightarrow> Inl e
      | Inr d \<Rightarrow>
          run_loop tbl queries expected_ids embeddings ks
            (results @ summary_rows k (aggregate_metrics d)))"

definition run_experiment ::
  "('e, 'a) table \<Rightarrow> string list \<Rightarrow> 'a list list \<Rightarrow> 'e list \<Rightarrow> int list
     \<Rightarrow> error + result_row list" where
  "run_experiment tbl queries expected_ids embeddings k_values =
     run_loop tbl queries expected_ids embeddings k_values []"

section \<open>Reward scoring (notebook on GRPO fine-tuning)\<close>

text \<open>
  \<^verbatim>\<open>
  def recall_score(example, pred, trace=None):
      ...
      predictions = [doc.lower() for doc in pred.retrieved_docs]
      labels = [answer.lower() for answer in example.answers]
      if not labels:
          return 0.0
      hits = sum(any(label in doc for doc in predictions) for label in labels)
      return hits / len(labels)
  \<close>
  The arguments are \<open>example.answers\<close> and \<open>pred.retrieved_docs\<close>; the three \<open>print\<close> calls
  are left out. A \<open>str\<close> is the list of its code points, of any type \<open>'c\<close>, and \<open>label in doc\<close>
  is \<open>sublist label doc\<close>. The builtin \<open>str.lower\<close> follows the case tables of Unicode: it
  is the parameter \<open>lower\<close>.
\<close>

definition recall_score ::
  "('c list \<Rightarrow> 'c list) \<Rightarrow> 'c list list \<Rightarrow> 'c list list \<Rightarrow> error + rat" where
  "recall_score lower answers retrieved_docs =
     (let predictions = map lower retrieved_docs;
          labels = map lower answers
      in if labels = [] then Inr 0
         else
           let hits = length (filter (\<lambda>label. list_ex (\<lambda>doc. sublist label doc) predictions) labels)
           in py_truediv hits (length labels))"

section \<open>Per-tool breakdown and the test run (notebook "Evaluating Tool Selection")\<close>

text \<open>
  A row of the data frame \<open>df\<close>, with the two columns that the breakdown reads.
\<close>

record 'a df_row =
  col_expected :: "'a list"
  col_actual :: "'a list"

text \<open>
  \<^verbatim>\<open>
  def calculate_per_tool_recall(df):
      """Calculate recall metrics for each individual tool."""
      # Collect all unique tools
      all_tools = set()
      for tools in df["expected"] + df["actual"]:
          all_tools.update(tools)
  \<close>
  The sum of the two columns is, row by row, the concatenation of the two lists. A Python
  set is iterated in an order that depends on the hashes of its elements; \<open>all_tools\<close> is
  the list of the distinct tools in the order of their first occurrence, one enumeration
  of that set. The result below is keyed by tool and does not show the enumeration.
\<close>

definition all_tools :: "'a df_row list \<Rightarrow> 'a list" where
  "all_tools df = remdups (concat (map (\<lambda>row. col_expected row @ col_actual row) df))"

text \<open>
  \<^verbatim>\<open>
      # Initialize counters
      correct_calls = {tool: 0 for tool in all_tools}
      expected_calls = {tool: 0 for tool in all_tools}
  \<close>
  A counter dictionary is a map; \<open>d[key] += 1\<close> raises KeyError on a missing key.
\<close>

definition init_counter :: "'a list \<Rightarrow> ('a \<rightharpoonup> nat)" where
  "init_counter tools = (\<lambda>tool. if tool \<in> set tools then Some 0 else None)"

definition increment :: "('a \<rightharpoonup> nat) \<Rightarrow> 'a \<Rightarrow> error + ('a \<rightharpoonup> nat)" where
  "increment d key = (case d key of None \<Rightarrow> Inl KeyError | Some n \<Rightarrow> Inr (d(key \<mapsto> Suc n)))"

text \<open>
  \<^verbatim>\<open>
      # Count when each tool should have been called vs. when it was correctly called
      for _, row in df.iterrows():
          expected = set(row["expected"])
          actual = set(row["actual"])
          for tool in expected:
              expected_calls[tool] += 1
              if tool in actual:
                  correct_calls[tool] += 1
  \<close>
  The state of the loops is the pair \<open>(correct_calls, expected_calls)\<close>. \<open>count_tools\<close> is the
  inner loop over the distinct tools of one row, \<open>count_rows\<close> the loop over the rows.
\<close>

fun count_tools ::
  "'a set \<Rightarrow> 'a list \<Rightarrow> ('a \<rightharpoonup> nat) \<times> ('a \<rightharpoonup> nat) \<Rightarrow> error + ('a \<rightharpoonup> nat) \<times> ('a \<rightharpoonup> nat)" where
  "count_tools actual [] c = Inr c"
| "count_tools actual (tool # rest) (cc, ec) =
     (case increment ec tool of
        Inl e \<Rightarrow> Inl e
      | Inr ec' \<Rightarrow>
          if tool \<in> actual then
            (case increment cc tool of
               Inl e \<Rightarrow> Inl e
             | Inr cc' \<Rightarrow> count_tools actual rest (cc', ec'))
          else count_tools actual rest (cc, ec'))"

fun count_rows ::
  "'a df_row list \<Rightarrow> ('a \<rightharpoonup> nat) \<times> ('a \<rightharpoonup> nat) \<Rightarrow> error + ('a \<rightharpoonup> nat) \<times> ('a \<rightharpoonup> nat)" where
  "count_rows [] c = Inr c"
| "count_rows (row # rest) c =
     (case count_tools (set (col_actual row)) (remdups (col_expected row)) c of
        Inl e \<Rightarrow> Inl e
      | Inr c' \<Rightarrow> count_rows rest c')"

text \<open>
  \<^verbatim>\<open>
      # Build results dataframe
      results = []
      for tool in all_tools:
          recall = correct_calls[tool] / expected_calls[tool] if expected_calls[tool] > 0 else 0
          results.append({
              "tool": tool,
              "correct_calls": correct_calls[tool],
              "expected_calls": expected_calls[tool],
              "recall": recall
          })
      return pd.DataFrame(results).sort_values("recall", ascending=False).round(2)
  \<close>
  \<open>lookup\<close> is \<open>d[key]\<close>. \<open>tool_result\<close> is one pass of the loop and gives the entry appended
  for \<open>tool\<close>; \<open>build_results\<close> is the loop.
\<close>

record tool_row =
  correct_calls :: nat
  expected_calls :: nat
  recall_col :: rat

definition lookup :: "('a \<rightharpoonup> nat) \<Rightarrow> 'a \<Rightarrow> error + nat" where
  "lookup d key = (case d key of None \<Rightarrow> Inl KeyError | Some n \<Rightarrow> Inr n)"

definition tool_result :: "('a \<rightharpoonup> nat) \<times> ('a \<rightharpoonup> nat) \<Rightarrow> 'a \<Rightarrow> error + tool_row" where
  "tool_result c tool =
     (case lookup (snd c) tool of Inl e \<Rightarrow> Inl e | Inr ec \<Rightarrow>
      case lookup (fst c) tool of Inl e \<Rightarrow> Inl e | Inr cc \<Rightarrow>
      case (if 0 < ec then py_truediv cc ec else Inr 0) of Inl e \<Rightarrow> Inl e | Inr r \<Rightarrow>
      Inr \<lparr>correct_calls = cc, expected_calls = ec, recall_col = r\<rparr>)"

fun build_results ::
  "('a \<rightharpoonup> nat) \<times> ('a \<rightharpoonup> nat) \<Rightarrow> 'a list \<Rightarrow> ('a \<times> tool_row) list \<Rightarrow> error + ('a \<times> tool_row) list" where
  "build_results c [] results = Inr results"
| "build_results c (tool # rest) results =
     (case tool_result c tool of
        Inl e \<Rightarrow> Inl e
      | Inr r \<Rightarrow> build_results c rest (results @ [(tool, r)]))"

text \<open>
  The data frame made from \<open>results\<close> has the column \<open>recall\<close> only when \<open>results\<close> is not
  empty: on the empty list \<open>sort_values("recall")\<close> raises KeyError. \<open>round(2)\<close> leaves the
  two integer columns as they are and rounds the float column \<open>recall\<close>. The returned frame
  is given as the map from a tool to its row: the order of the rows (descending \<open>recall\<close>,
  ties as the sort leaves them) is not modelled.
\<close>

definition round_row :: "tool_row \<Rightarrow> tool_row" where
  "round_row r = r\<lparr>recall_col := np_round2 (recall_col r)\<rparr>"

definition calculate_per_tool_recall :: "'a df_row list \<Rightarrow> error + ('a \<rightharpoonup> tool_row)" where
  "calculate_per_tool_recall df =
     (let tools = all_tools df
      in case count_rows df (init_counter tools, init_counter tools) of
           Inl e \<Rightarrow> Inl e
         | Inr c \<Rightarrow>
             (case build_results c tools [] of
                Inl e \<Rightarrow> Inl e
              | Inr results \<Rightarrow>
                  if results = [] then Inl KeyError
                  else Inr (map_of (map (\<lambda>(tool, r). (tool, round_row r)) results))))"

text \<open>
  The cell "Run the Tests":
  \<^verbatim>\<open>
  def extract_tool_calls(response):
      """Extract tool calls from the new response format"""
      tool_calls = []
      if hasattr(response, 'output') and response.output:
          for output_item in response.output:
              if output_item.type == 'function_call':
                  tool_calls.append(output_item.name)
      return tool_calls

  coros = [process_user_query(query) for query, _ in tests]
  results = await asyncio.gather(*coros)
  df = pd.DataFrame([{"query": test_item[0],
                      "expected": [tool.__name__ for tool in test_item[1]],
                      "actual": extract_tool_calls(result["response"]),
                      "time": round(result["time"], 2)}
                     for test_item, result in zip(tests, results)])
  \<close>
  A response is the list of its output items (empty when the attribute is missing or
  empty). \<open>process_user_query\<close>, the call of the completion API, is a parameter: it gives
  the response or raises. \<open>asyncio.gather\<close> without \<open>return_exceptions\<close> gives the list of
  all results when every awaitable returns, and otherwise raises the exception of one that
  failed (which one depends on timing): it is a relation between the outcomes of the
  awaitables and its own outcome. \<open>ListMem x xs\<close> is membership of \<open>x\<close> in the list \<open>xs\<close>.
\<close>

record output_item =
  item_type :: string
  item_name :: string

definition extract_tool_calls :: "output_item list \<Rightarrow> string list" where
  "extract_tool_calls response =
     map item_name (filter (\<lambda>output_item. item_type output_item = ''function_call'') response)"

inductive gather :: "(error + 'r) list \<Rightarrow> error + 'r list \<Rightarrow> bool" where
  gather_return:
    "list_all (\<lambda>r. \<not> isl r) rs \<Longrightarrow> results = map projr rs \<Longrightarrow> gather rs (Inr results)"
| gather_raise: "ListMem (Inl e) rs \<Longrightarrow> gather rs (Inl e)"

code_pred gather .

definition make_df :: "(string \<times> string list) list \<Rightarrow> output_item list list \<Rightarrow> string df_row list" where
  "make_df tests results =
     map (\<lambda>(test_item, result).
        \<lparr>col_expected = snd test_item, col_actual = extract_tool_calls result\<rparr>)
       (zip tests results)"

inductive run_tests ::
  "(string \<Rightarrow> error + output_item list) \<Rightarrow> (string \<times> string list) list
     \<Rightarrow> error + string df_row list \<Rightarrow> bool" where
  run_tests_df:
    "gather (map (\<lambda>(query, _). process_user_query query) tests) (Inr results)
       \<Longrightarrow> run_tests process_user_query tests (Inr (make_df tests results))"
| run_tests_raise:
    "gather (map (\<lambda>(query, _). process_user_query query) tests) (Inl e)
       \<Longrightarrow> run_tests process_user_query tests (Inl e)"

code_pred run_tests .

section \<open>The counts of the specification\<close>

text \<open>
  The specification of the per-tool breakdown, in its own words: for a tool, the number of
  queries where it was expected, and the number of queries where it was expected and
  retrieved. The counters of \<open>calculate_per_tool_recall\<close> are compared with these below.
\<close>

definition queries_expected :: "'a df_row list \<Rightarrow> 'a \<Rightarrow> nat" where
  "queries_expected df tool = length (filter (\<lambda>row. tool \<in> set (col_expected row)) df)"

definition queries_expected_and_retrieved :: "'a df_row list \<Rightarrow> 'a \<Rightarrow> nat" where
  "queries_expected_and_retrieved df tool =
     length (filter (\<lambda>row. tool \<in> set (col_expected row) \<and> tool \<in> set (col_actual row)) df)"

section \<open>Facts about the float model\<close>

lemma fl_zero: "fl 0 = 0"
  by (simp add: fl_def)

lemma fl_one: "fl 1 = 1"
  by (simp add: fl_def ilog2_def bit_length.simps pow2_def round_half_even_def)

lemma fl_half: "fl (1 / 2) = 1 / 2"
  by (simp add: fl_def ilog2_def bit_length.simps pow2_def round_half_even_def)

lemma np_round2_zero: "np_round2 0 = 0"
  by (simp add: np_round2_def round_half_even_def fl_zero)

text \<open>
  The mean of three floats whose exact mean \<open>5 / 6\<close> is not a float, and the means that
  the examples below use.
\<close>

lemma np_mean_three: "np_mean [1, 1 / 2, 1] = Some (fl (5 / 6)) \<and> fl (5 / 6) \<noteq> 5 / 6"
  by code_simp




section \<open>The metric functions on empty inputs\<close>

text \<open>
  C6. For every expected list, the empty one too, the precision of the empty list of
  tool calls is \<open>0.0\<close>; no exception is raised.
\<close>

theorem calculate_precision_empty_result:
  "calculate_precision [] expected_tool_call = Inr 0"
  by (simp add: calculate_precision_def)

text \<open>
  C1. The claim is that every recall function returns \<open>1.0\<close> against an empty expected
  list. \<open>recall_score\<close> has its own guard for the empty list of labels and returns \<open>0.0\<close>
  there. (\<open>str.lower\<close> leaves the document of this example as it is.)
\<close>

theorem recall_score_empty_labels_counterexample:
  "recall_score id [] [''the city of paris''] = Inr 0 \<and>
   recall_score id [] [''the city of paris''] \<noteq> Inr 1"
  by (simp add: recall_score_def)

text \<open>
  C1, as amended. For every list of tool calls, the empty one too, \<open>calculate_recall\<close>
  against the empty expected list returns \<open>1.0\<close> and raises nothing; \<open>recall_score\<close> against
  the empty list of answers returns \<open>0.0\<close>, for every list of retrieved documents.
\<close>

theorem recall_empty_expected:
  "calculate_recall model_tool_call [] = Inr 1 \<and> recall_score lower [] retrieved_docs = Inr 0"
  by (simp add: calculate_recall_def recall_score_def)

section \<open>Division by zero\<close>

text \<open>
  The three functions that test for emptiness before they divide, or divide by a rank
  that starts at one, return a value on every input.
\<close>

lemma calculate_precision_returns:
  "\<exists>v. calculate_precision model_tool_call expected_tool_call = Inr v"
  by (simp add: calculate_precision_def py_truediv_def Let_def)

lemma calculate_recall_returns:
  "\<exists>v. calculate_recall model_tool_call expected_tool_call = Inr v"
  by (simp add: calculate_recall_def py_truediv_def Let_def)



text \<open>
  C2. \<open>recall\<close> of the retrieval notebook divides by \<open>len(expected)\<close> with no test before
  it: on an empty expected list it raises ZeroDivisionError, whatever was retrieved.
\<close>

theorem recall_empty_expected_raises:
  "recall [''78'', ''154''] ([] :: string list) = Inl ZeroDivisionError"
  by (simp add: recall_def py_truediv_def)

section \<open>Reciprocal rank\<close>

lemma mrr_loop_no_match:
  "\<forall>doc_id \<in> set retrieved. doc_id \<notin> set expected \<Longrightarrow> mrr_loop rank retrieved expected = Inr 0"
  by (induction retrieved arbitrary: rank) simp_all

lemma mrr_loop_first_match:
  "i < length retrieved \<Longrightarrow> retrieved ! i \<in> set expected
     \<Longrightarrow> \<forall>j<i. retrieved ! j \<notin> set expected \<Longrightarrow> 0 < rank
     \<Longrightarrow> mrr_loop rank retrieved expected = Inr (fl (1 / of_nat (rank + i)))"
proof (induction retrieved arbitrary: rank i)
  case Nil
  then show ?case by simp
next
  case (Cons doc_id rest)
  show ?case
  proof (cases i)
    case 0
    with Cons.prems show ?thesis by (simp add: py_truediv_def)
  next
    case (Suc i')
    from Cons.prems Suc have head: "doc_id \<notin> set expected" by auto
    from Cons.prems Suc have "i' < length rest" "rest ! i' \<in> set expected"
      "\<forall>j<i'. rest ! j \<notin> set expected" by auto
    then have "mrr_loop (Suc rank) rest expected = Inr (fl (1 / of_nat (Suc rank + i')))"
      by (intro Cons.IH) simp_all
    with head Suc show ?thesis by simp
  qed
qed

text \<open>
  C5. \<open>mrr\<close> goes through the retrieved list in rank order, ranks counted from one. When
  no retrieved item is expected it returns \<open>0.0\<close>. When position \<open>i\<close> (rank \<open>i + 1\<close>) is the
  first whose item is expected it returns the float \<open>1 / (i + 1)\<close>: \<open>1.0\<close> for a match at
  rank one, \<open>0.5\<close> at rank two.
\<close>

theorem mrr_first_match:
  "((\<forall>doc_id \<in> set retrieved. doc_id \<notin> set expected) \<longrightarrow> mrr retrieved expected = Inr 0) \<and>
   (i < length retrieved \<and> retrieved ! i \<in> set expected \<and> (\<forall>j<i. retrieved ! j \<notin> set expected) \<longrightarrow>
      mrr retrieved expected = Inr (fl (1 / of_nat (i + 1))) \<and>
      (i = 0 \<longrightarrow> mrr retrieved expected = Inr 1) \<and>
      (i = 1 \<longrightarrow> mrr retrieved expected = Inr (1 / 2)))"
proof (intro conjI impI)
  assume "\<forall>doc_id \<in> set retrieved. doc_id \<notin> set expected"
  then show "mrr retrieved expected = Inr 0"
    by (simp add: mrr_def mrr_loop_no_match)
next
  assume h: "i < length retrieved \<and> retrieved ! i \<in> set expected \<and> (\<forall>j<i. retrieved ! j \<notin> set expected)"
  then have "mrr_loop 1 retrieved expected = Inr (fl (1 / of_nat (1 + i)))"
    by (intro mrr_loop_first_match) simp_all
  then show m: "mrr retrieved expected = Inr (fl (1 / of_nat (i + 1)))"
    by (simp add: mrr_def add.commute)
  show "mrr retrieved expected = Inr 1" if "i = 0"
    using m that by (simp add: fl_one)
  show "mrr retrieved expected = Inr (1 / 2)" if "i = 1"
    using m that by (simp add: fl_half)
qed

theorem mrr_first_match_witness:
  "mrr [''a'', ''b'', ''c''] [''b''] = Inr (1 / 2) \<and> mrr [''b'', ''c''] [''b''] = Inr 1 \<and>
   mrr [''a'', ''c''] [''b''] = Inr 0"
  using mrr_first_match [of "[''a'', ''b'', ''c'']" "[''b'']" 1]
    mrr_first_match [of "[''b'', ''c'']" "[''b'']" 0]
    mrr_first_match [of "[''a'', ''c'']" "[''b'']" 0]
  by (simp add: fl_one fl_half)

section \<open>Precision\<close>

lemma distinct_count_inter:
  assumes "distinct xs"
  shows "length (filter (\<lambda>x. x \<in> set ys) xs) = card (set xs \<inter> set ys)"
proof -
  have "distinct (filter (\<lambda>x. x \<in> set ys) xs)"
    using assms by (rule distinct_filter)
  then have "card (set (filter (\<lambda>x. x \<in> set ys) xs)) = length (filter (\<lambda>x. x \<in> set ys) xs)"
    by (rule distinct_card)
  moreover have "set (filter (\<lambda>x. x \<in> set ys) xs) = set xs \<inter> set ys"
    by auto
  ultimately show ?thesis by simp
qed

text \<open>
  C3. The claim is that precision is \<open>|result \<inter> expected| / |result|\<close> at full precision,
  an item counted once however often it occurs, so that \<open>["a", "a"]\<close> against \<open>{"a"}\<close> gives
  \<open>0.5\<close>. \<open>calculate_precision\<close> counts every call that is expected and gives \<open>1.0\<close> there;
  and what it returns is already rounded: for \<open>["a", "b", "c"]\<close> against \<open>["b"]\<close> it is not
  the float \<open>1 / 3\<close>.
\<close>

theorem calculate_precision_duplicates_counterexample:
  "calculate_precision [''a'', ''a''] [''a''] = Inr 1 \<and>
   calculate_precision [''a'', ''a''] [''a''] \<noteq> Inr (1 / 2) \<and>
   calculate_precision [''a'', ''b'', ''c''] [''b''] \<noteq> Inr (fl (1 / 3))"
  by code_simp

text \<open>
  C3, as amended. For every non-empty list of tool calls and every expected list,
  \<open>calculate_precision\<close> returns the number of calls whose tool is expected (a tool called
  twice counts twice) divided by the number of calls, rounded to two decimals by the
  function itself. When no tool is called twice this is \<open>|result \<inter> expected| / |result|\<close>
  rounded to two decimals.
\<close>

theorem calculate_precision_value:
  "model_tool_call \<noteq> [] \<Longrightarrow>
     calculate_precision model_tool_call expected_tool_call =
       Inr (py_round2 (fl (of_nat (length (filter (\<lambda>tool. tool \<in> set expected_tool_call) model_tool_call))
                           / of_nat (length model_tool_call)))) \<and>
     (distinct model_tool_call \<longrightarrow>
        calculate_precision model_tool_call expected_tool_call =
          Inr (py_round2 (fl (of_nat (card (set model_tool_call \<inter> set expected_tool_call))
                              / of_nat (length model_tool_call)))))"
  by (simp add: calculate_precision_def py_truediv_def Let_def distinct_count_inter)

theorem calculate_precision_value_witness:
  "[''a'', ''a''] \<noteq> [] \<and> calculate_precision [''a'', ''a''] [''a''] = Inr (py_round2 (fl (2 / 2))) \<and>
   distinct [''a'', ''b'', ''c''] \<and>
   calculate_precision [''a'', ''b'', ''c''] [''b''] = Inr (py_round2 (fl (1 / 3)))"
  using calculate_precision_value [of "[''a'', ''a'']" "[''a'']"]
    calculate_precision_value [of "[''a'', ''b'', ''c'']" "[''b'']"]
  by simp

text \<open>
  C7. For the result \<open>["a", "b", "c"]\<close> and the expected list \<open>["b"]\<close>: the precision is the
  float \<open>0.33\<close> (one third, rounded to two decimals), the recall is \<open>1.0\<close>, in the tool
  notebook and in the retrieval notebook, and the reciprocal rank is \<open>0.5\<close>, for the match
  at rank two.
\<close>

theorem scenario_D:
  "calculate_precision [''a'', ''b'', ''c''] [''b''] = Inr (fl (33 / 100)) \<and>
   calculate_recall [''a'', ''b'', ''c''] [''b''] = Inr 1 \<and>
   recall [''a'', ''b'', ''c''] [''b''] = Inr 1 \<and>
   mrr [''a'', ''b'', ''c''] [''b''] = Inr (1 / 2)"
  by code_simp

section \<open>The per-tool breakdown\<close>

lemma count_tools_counts:
  "distinct ts \<Longrightarrow> set ts \<subseteq> dom cc \<Longrightarrow> set ts \<subseteq> dom ec \<Longrightarrow>
     \<exists>cc' ec'. count_tools actual ts (cc, ec) = Inr (cc', ec') \<and>
       (\<forall>t. ec' t = (if t \<in> set ts then map_option Suc (ec t) else ec t)) \<and>
       (\<forall>t. cc' t = (if t \<in> set ts \<and> t \<in> actual then map_option Suc (cc t) else cc t))"
proof (induction ts arbitrary: cc ec)
  case Nil
  then show ?case by simp
next
  case (Cons tool rest)
  from Cons.prems obtain n m where n: "ec tool = Some n" and m: "cc tool = Some m"
    by auto
  let ?ec = "ec(tool \<mapsto> Suc n)"
  let ?cc = "if tool \<in> actual then cc(tool \<mapsto> Suc m) else cc"
  have step: "count_tools actual (tool # rest) (cc, ec) = count_tools actual rest (?cc, ?ec)"
    using n m by (simp add: increment_def)
  have "distinct rest" "set rest \<subseteq> dom ?cc" "set rest \<subseteq> dom ?ec"
    using Cons.prems by auto
  from Cons.IH [OF this] obtain cc' ec' where
    r: "count_tools actual rest (?cc, ?ec) = Inr (cc', ec')" and
    e: "\<forall>t. ec' t = (if t \<in> set rest then map_option Suc (?ec t) else ?ec t)" and
    c: "\<forall>t. cc' t = (if t \<in> set rest \<and> t \<in> actual then map_option Suc (?cc t) else ?cc t)"
    by blast
  have notin: "tool \<notin> set rest" using Cons.prems by simp
  have "\<forall>t. ec' t = (if t \<in> set (tool # rest) then map_option Suc (ec t) else ec t)"
    using e n notin by auto
  moreover have "\<forall>t. cc' t = (if t \<in> set (tool # rest) \<and> t \<in> actual then map_option Suc (cc t) else cc t)"
    using c m notin by auto
  ultimately show ?case using step r by simp
qed

lemma count_rows_counts:
  "\<forall>row \<in> set df. set (col_expected row) \<subseteq> dom cc \<inter> dom ec \<Longrightarrow>
     \<exists>cc' ec'. count_rows df (cc, ec) = Inr (cc', ec') \<and>
       (\<forall>t. ec' t = map_option (\<lambda>n. n + queries_expected df t) (ec t)) \<and>
       (\<forall>t. cc' t = map_option (\<lambda>n. n + queries_expected_and_retrieved df t) (cc t))"
proof (induction df arbitrary: cc ec)
  case Nil
  then show ?case
    by (simp add: option.map_ident queries_expected_def queries_expected_and_retrieved_def)
next
  case (Cons row rest)
  have "distinct (remdups (col_expected row))" "set (remdups (col_expected row)) \<subseteq> dom cc"
    "set (remdups (col_expected row)) \<subseteq> dom ec"
    using Cons.prems by auto
  from count_tools_counts [OF this, of "set (col_actual row)"] obtain cc1 ec1 where
    r1: "count_tools (set (col_actual row)) (remdups (col_expected row)) (cc, ec) = Inr (cc1, ec1)" and
    e1: "\<forall>t. ec1 t = (if t \<in> set (col_expected row) then map_option Suc (ec t) else ec t)" and
    c1: "\<forall>t. cc1 t = (if t \<in> set (col_expected row) \<and> t \<in> set (col_actual row) then map_option Suc (cc t) else cc t)"
    by auto
  have d1: "dom cc1 = dom cc" "dom ec1 = dom ec"
    using e1 c1 by (auto simp: dom_def)
  then have "\<forall>r \<in> set rest. set (col_expected r) \<subseteq> dom cc1 \<inter> dom ec1"
    using Cons.prems by simp
  from Cons.IH [OF this] obtain cc' ec' where
    r: "count_rows rest (cc1, ec1) = Inr (cc', ec')" and
    e: "\<forall>t. ec' t = map_option (\<lambda>n. n + queries_expected rest t) (ec1 t)" and
    c: "\<forall>t. cc' t = map_option (\<lambda>n. n + queries_expected_and_retrieved rest t) (cc1 t)"
    by blast
  have "\<forall>t. ec' t = map_option (\<lambda>n. n + queries_expected (row # rest) t) (ec t)"
    using e e1 by (simp add: option.map_comp comp_def queries_expected_def)
  moreover have "\<forall>t. cc' t = map_option (\<lambda>n. n + queries_expected_and_retrieved (row # rest) t) (cc t)"
    using c c1 by (simp add: option.map_comp comp_def queries_expected_and_retrieved_def)
  ultimately show ?case using r1 r by simp
qed

lemma set_all_tools:
  "set (all_tools df) = (\<Union>row \<in> set df. set (col_expected row) \<union> set (col_actual row))"
  by (auto simp: all_tools_def)

lemma tool_result_present:
  "fst c tool = Some cc \<Longrightarrow> snd c tool = Some ec \<Longrightarrow>
     tool_result c tool =
       Inr \<lparr>correct_calls = cc, expected_calls = ec,
            recall_col = (if 0 < ec then fl (of_nat cc / of_nat ec) else 0)\<rparr>"
  by (simp add: tool_result_def lookup_def py_truediv_def)

lemma build_results_rows:
  "\<forall>tool \<in> set tools. fst c tool = Some (cf tool) \<and> snd c tool = Some (ef tool) \<Longrightarrow>
     build_results c tools acc =
       Inr (acc @ map (\<lambda>tool. (tool,
              \<lparr>correct_calls = cf tool, expected_calls = ef tool,
               recall_col = (if 0 < ef tool then fl (of_nat (cf tool) / of_nat (ef tool)) else 0)\<rparr>)) tools)"
  by (induction tools arbitrary: acc) (simp_all add: tool_result_present)

lemma map_of_rounded_rows:
  "map_of (map (\<lambda>(tool, r). (tool, round_row r)) (map (\<lambda>tool. (tool, f tool)) tools)) tool =
     (if tool \<in> set tools then Some (round_row (f tool)) else None)"
  by (induction tools) simp_all

lemma per_tool_unfold:
  "calculate_per_tool_recall df =
     (if all_tools df = [] then Inl KeyError
      else Inr (map_of (map (\<lambda>(tool, r). (tool, round_row r))
        (map (\<lambda>tool. (tool,
           \<lparr>correct_calls = queries_expected_and_retrieved df tool,
            expected_calls = queries_expected df tool,
            recall_col =
              (if 0 < queries_expected df tool
               then fl (of_nat (queries_expected_and_retrieved df tool) / of_nat (queries_expected df tool))
               else 0)\<rparr>)) (all_tools df)))))"
proof -
  let ?tools = "all_tools df"
  have "\<forall>row \<in> set df. set (col_expected row) \<subseteq> dom (init_counter ?tools) \<inter> dom (init_counter ?tools)"
    by (auto simp: init_counter_def set_all_tools dom_def)
  from count_rows_counts [OF this] obtain cc ec where
    r: "count_rows df (init_counter ?tools, init_counter ?tools) = Inr (cc, ec)" and
    e: "\<forall>t. ec t = map_option (\<lambda>n. n + queries_expected df t) (init_counter ?tools t)" and
    c: "\<forall>t. cc t = map_option (\<lambda>n. n + queries_expected_and_retrieved df t) (init_counter ?tools t)"
    by blast
  have "\<forall>tool \<in> set ?tools. fst (cc, ec) tool = Some (queries_expected_and_retrieved df tool)
      \<and> snd (cc, ec) tool = Some (queries_expected df tool)"
    using e c by (simp add: init_counter_def)
  then have b: "build_results (cc, ec) ?tools [] = Inr ([] @ map (\<lambda>tool. (tool,
           \<lparr>correct_calls = queries_expected_and_retrieved df tool,
            expected_calls = queries_expected df tool,
            recall_col =
              (if 0 < queries_expected df tool
               then fl (of_nat (queries_expected_and_retrieved df tool) / of_nat (queries_expected df tool))
               else 0)\<rparr>)) ?tools)"
    by (rule build_results_rows)
  show ?thesis
    using r b by (simp add: calculate_per_tool_recall_def Let_def del: map_map)
qed

lemma per_tool_table:
  assumes "tool \<in> set (all_tools df)"
  shows "\<exists>tbl. calculate_per_tool_recall df = Inr tbl \<and>
    tbl tool =
      Some \<lparr>correct_calls = queries_expected_and_retrieved df tool,
            expected_calls = queries_expected df tool,
            recall_col =
              (if 0 < queries_expected df tool
               then np_round2 (fl (of_nat (queries_expected_and_retrieved df tool) / of_nat (queries_expected df tool)))
               else 0)\<rparr>"
proof -
  from assms have ne: "all_tools df \<noteq> []" by auto
  show ?thesis
    using assms ne
    by (simp only: per_tool_unfold if_False simp_thms sum.inject ex_simps map_of_rounded_rows if_True)
       (simp add: round_row_def np_round2_zero)
qed

lemma per_tool_no_zero_division: "calculate_per_tool_recall df \<noteq> Inl ZeroDivisionError"
  by (simp only: per_tool_unfold) simp

lemma np_round2_one: "np_round2 1 = 1"
  by code_simp

lemma fl_two_thirds: "fl (2 / 3) = 6004799503160661 / 9007199254740992"
  by code_simp

lemma fl_67_100: "fl (67 / 100) = 6034823500676465 / 9007199254740992"
  by code_simp

lemma np_round2_two_thirds:
  "np_round2 (6004799503160661 / 9007199254740992) = 6034823500676465 / 9007199254740992"
  by code_simp

lemma queries_expected_append:
  "tool \<notin> set (col_expected extra) \<Longrightarrow>
     queries_expected (df @ [extra]) tool = queries_expected df tool \<and>
     queries_expected_and_retrieved (df @ [extra]) tool = queries_expected_and_retrieved df tool"
  by (simp add: queries_expected_def queries_expected_and_retrieved_def)

text \<open>
  C8. The claim is that the row of a tool reports \<open>correct_calls / expected_calls\<close> as its
  recall. The frame that \<open>calculate_per_tool_recall\<close> returns went through \<open>round(2)\<close>: for a
  tool expected in three queries and called in two of them the recall of its row is the
  float \<open>0.67\<close>, not the float \<open>2 / 3\<close>.
\<close>

theorem per_tool_recall_rounded_counterexample:
  "\<not> isl (calculate_per_tool_recall
      [\<lparr>col_expected = [''get''], col_actual = [''get'']\<rparr>,
       \<lparr>col_expected = [''get''], col_actual = []\<rparr>,
       \<lparr>col_expected = [''get''], col_actual = [''get'']\<rparr>]) \<and>
   projr (calculate_per_tool_recall
      [\<lparr>col_expected = [''get''], col_actual = [''get'']\<rparr>,
       \<lparr>col_expected = [''get''], col_actual = []\<rparr>,
       \<lparr>col_expected = [''get''], col_actual = [''get'']\<rparr>]) ''get'' =
     Some \<lparr>correct_calls = 2, expected_calls = 3, recall_col = fl (67 / 100)\<rparr> \<and>
   fl (67 / 100) \<noteq> fl (2 / 3)"
  by (simp add: per_tool_unfold all_tools_def queries_expected_def queries_expected_and_retrieved_def
      round_row_def fl_two_thirds fl_67_100 np_round2_two_thirds)


text \<open>
  C8, as amended. For every data frame of (expected, actual) rows and every tool that
  occurs in it, the row of the tool has \<open>expected_calls\<close> equal to the number of queries
  whose expected list has the tool, and \<open>correct_calls\<close> equal to the number of queries
  whose expected list and whose actual list both have it. A further query \<open>extra\<close> that does
  not expect the tool, whether it called the tool or not, changes neither counter. The
  recall of the row is \<open>correct_calls / expected_calls\<close> rounded to two decimals when
  \<open>expected_calls\<close> is positive, and \<open>0\<close> otherwise.
\<close>

theorem per_tool_counts:
  "tool \<in> (\<Union>row \<in> set df. set (col_expected row) \<union> set (col_actual row)) \<Longrightarrow>
     \<exists>tbl r. calculate_per_tool_recall df = Inr tbl \<and> tbl tool = Some r \<and>
       expected_calls r = queries_expected df tool \<and>
       correct_calls r = queries_expected_and_retrieved df tool \<and>
       recall_col r =
         (if 0 < expected_calls r
          then np_round2 (fl (of_nat (correct_calls r) / of_nat (expected_calls r))) else 0) \<and>
       (tool \<notin> set (col_expected extra) \<longrightarrow>
          (\<exists>tbl' r'. calculate_per_tool_recall (df @ [extra]) = Inr tbl' \<and> tbl' tool = Some r' \<and>
             expected_calls r' = expected_calls r \<and> correct_calls r' = correct_calls r))"
proof -
  assume "tool \<in> (\<Union>row \<in> set df. set (col_expected row) \<union> set (col_actual row))"
  then have t: "tool \<in> set (all_tools df)"
    by (simp only: set_all_tools)
  then have t': "tool \<in> set (all_tools (df @ [extra]))"
    by (auto simp: set_all_tools)
  from per_tool_table [OF t] obtain tbl where
    tbl: "calculate_per_tool_recall df = Inr tbl" and
    row: "tbl tool =
      Some \<lparr>correct_calls = queries_expected_and_retrieved df tool,
            expected_calls = queries_expected df tool,
            recall_col =
              (if 0 < queries_expected df tool
               then np_round2 (fl (of_nat (queries_expected_and_retrieved df tool) / of_nat (queries_expected df tool)))
               else 0)\<rparr>"
    by blast
  from per_tool_table [OF t'] obtain tbl' where
    tbl': "calculate_per_tool_recall (df @ [extra]) = Inr tbl'" and
    row': "tbl' tool =
      Some \<lparr>correct_calls = queries_expected_and_retrieved (df @ [extra]) tool,
            expected_calls = queries_expected (df @ [extra]) tool,
            recall_col =
              (if 0 < queries_expected (df @ [extra]) tool
               then np_round2 (fl (of_nat (queries_expected_and_retrieved (df @ [extra]) tool)
                                   / of_nat (queries_expected (df @ [extra]) tool)))
               else 0)\<rparr>"
    by blast
  show ?thesis
    using tbl row tbl' row' by (simp add: queries_expected_append)
qed

theorem per_tool_counts_witness:
  "''send_email'' \<in> (\<Union>row \<in> set
      [\<lparr>col_expected = [''send_email''], col_actual = [''send_email'']\<rparr>,
       \<lparr>col_expected = [''get_calendar_events''], col_actual = [''get_calendar_events'']\<rparr>].
      set (col_expected row) \<union> set (col_actual row)) \<and>
   ''send_email'' \<notin> set (col_expected
      \<lparr>col_expected = [''get_calendar_events''], col_actual = [''get_calendar_events'', ''send_email'']\<rparr>) \<and>
   (\<exists>tbl r. calculate_per_tool_recall
      [\<lparr>col_expected = [''send_email''], col_actual = [''send_email'']\<rparr>,
       \<lparr>col_expected = [''get_calendar_events''], col_actual = [''get_calendar_events'']\<rparr>] = Inr tbl \<and>
      tbl ''send_email'' = Some r \<and> expected_calls r = 1 \<and> correct_calls r = 1 \<and> recall_col r = 1 \<and>
      (\<exists>tbl' r'. calculate_per_tool_recall
         ([\<lparr>col_expected = [''send_email''], col_actual = [''send_email'']\<rparr>,
           \<lparr>col_expected = [''get_calendar_events''], col_actual = [''get_calendar_events'']\<rparr>] @
          [\<lparr>col_expected = [''get_calendar_events''], col_actual = [''get_calendar_events'', ''send_email'']\<rparr>]) = Inr tbl' \<and>
         tbl' ''send_email'' = Some r' \<and> expected_calls r' = 1 \<and> correct_calls r' = 1))"
proof -
  let ?df = "[\<lparr>col_expected = [''send_email''], col_actual = [''send_email'']\<rparr>,
       \<lparr>col_expected = [''get_calendar_events''], col_actual = [''get_calendar_events'']\<rparr>]"
  let ?extra = "\<lparr>col_expected = [''get_calendar_events''], col_actual = [''get_calendar_events'', ''send_email'']\<rparr>"
  have h: "''send_email'' \<in> (\<Union>row \<in> set ?df. set (col_expected row) \<union> set (col_actual row))"
    by simp
  have x: "''send_email'' \<notin> set (col_expected ?extra)"
    by simp
  have e: "queries_expected ?df ''send_email'' = 1" "queries_expected_and_retrieved ?df ''send_email'' = 1"
    by (simp_all add: queries_expected_def queries_expected_and_retrieved_def)
  from per_tool_counts [OF h, of ?extra] obtain tbl r where
    a: "calculate_per_tool_recall ?df = Inr tbl" "tbl ''send_email'' = Some r"
      "expected_calls r = queries_expected ?df ''send_email''"
      "correct_calls r = queries_expected_and_retrieved ?df ''send_email''"
      "recall_col r = (if 0 < expected_calls r
          then np_round2 (fl (of_nat (correct_calls r) / of_nat (expected_calls r))) else 0)" and
    b: "''send_email'' \<notin> set (col_expected ?extra) \<longrightarrow>
          (\<exists>tbl' r'. calculate_per_tool_recall (?df @ [?extra]) = Inr tbl' \<and> tbl' ''send_email'' = Some r' \<and>
             expected_calls r' = expected_calls r \<and> correct_calls r' = correct_calls r)"
    by blast
  from a e have c: "expected_calls r = 1" "correct_calls r = 1" "recall_col r = 1"
    by (simp_all add: fl_one np_round2_one)
  from b x c obtain tbl' r' where
    d: "calculate_per_tool_recall (?df @ [?extra]) = Inr tbl'" "tbl' ''send_email'' = Some r'"
      "expected_calls r' = 1" "correct_calls r' = 1"
    by auto
  show ?thesis
    using h x a(1,2) c d by blast
qed

text \<open>
  C10. \<open>calculate_per_tool_recall\<close> never raises ZeroDivisionError. Every tool that occurs in
  an expected or in an actual list of the frame has a row in the result; when the tool is
  in no expected list its row is \<open>correct_calls = 0\<close>, \<open>expected_calls = 0\<close>, \<open>recall = 0\<close>. The
  zero comes from the test \<open>expected_calls[tool] > 0\<close>: with a zero counter the pass of the
  loop gives recall \<open>0\<close> without dividing.
\<close>

theorem per_tool_rows_for_all_tools:
  "calculate_per_tool_recall df \<noteq> Inl ZeroDivisionError \<and>
   (tool \<in> (\<Union>row \<in> set df. set (col_expected row) \<union> set (col_actual row)) \<longrightarrow>
      (\<exists>tbl r. calculate_per_tool_recall df = Inr tbl \<and> tbl tool = Some r \<and>
         ((\<forall>row \<in> set df. tool \<notin> set (col_expected row)) \<longrightarrow>
            r = \<lparr>correct_calls = 0, expected_calls = 0, recall_col = 0\<rparr>))) \<and>
   (snd c tool = Some 0 \<and> fst c tool = Some n \<longrightarrow>
      tool_result c tool = Inr \<lparr>correct_calls = n, expected_calls = 0, recall_col = 0\<rparr>)"
proof (intro conjI impI)
  show "calculate_per_tool_recall df \<noteq> Inl ZeroDivisionError"
    by (rule per_tool_no_zero_division)
next
  assume "tool \<in> (\<Union>row \<in> set df. set (col_expected row) \<union> set (col_actual row))"
  then have "tool \<in> set (all_tools df)"
    by (simp only: set_all_tools)
  from per_tool_table [OF this] obtain tbl where
    tbl: "calculate_per_tool_recall df = Inr tbl" and
    row: "tbl tool =
      Some \<lparr>correct_calls = queries_expected_and_retrieved df tool,
            expected_calls = queries_expected df tool,
            recall_col =
              (if 0 < queries_expected df tool
               then np_round2 (fl (of_nat (queries_expected_and_retrieved df tool) / of_nat (queries_expected df tool)))
               else 0)\<rparr>"
    by blast
  have "queries_expected df tool = 0 \<and> queries_expected_and_retrieved df tool = 0"
    if "\<forall>row \<in> set df. tool \<notin> set (col_expected row)"
    using that by (simp add: queries_expected_def queries_expected_and_retrieved_def)
  then show "\<exists>tbl r. calculate_per_tool_recall df = Inr tbl \<and> tbl tool = Some r \<and>
         ((\<forall>row \<in> set df. tool \<notin> set (col_expected row)) \<longrightarrow>
            r = \<lparr>correct_calls = 0, expected_calls = 0, recall_col = 0\<rparr>)"
    using tbl row by auto
next
  assume "snd c tool = Some 0 \<and> fst c tool = Some n"
  then show "tool_result c tool = Inr \<lparr>correct_calls = n, expected_calls = 0, recall_col = 0\<rparr>"
    by (simp add: tool_result_present)
qed

theorem per_tool_rows_for_all_tools_witness:
  "''send_email'' \<in> (\<Union>row \<in> set
      [\<lparr>col_expected = [''get_calendar_events''], col_actual = [''get_calendar_events'', ''send_email'']\<rparr>].
      set (col_expected row) \<union> set (col_actual row)) \<and>
   ''send_email'' \<notin> set (col_expected
      \<lparr>col_expected = [''get_calendar_events''], col_actual = [''get_calendar_events'', ''send_email'']\<rparr>) \<and>
   (\<exists>tbl. calculate_per_tool_recall
      [\<lparr>col_expected = [''get_calendar_events''], col_actual = [''get_calendar_events'', ''send_email'']\<rparr>] = Inr tbl \<and>
      tbl ''send_email'' = Some \<lparr>correct_calls = 0, expected_calls = 0, recall_col = 0\<rparr>) \<and>
   tool_result (Map.empty(''send_email'' \<mapsto> 0), Map.empty(''send_email'' \<mapsto> 0)) ''send_email'' =
     Inr \<lparr>correct_calls = 0, expected_calls = 0, recall_col = 0\<rparr>"
  using per_tool_rows_for_all_tools [of
      "[\<lparr>col_expected = [''get_calendar_events''], col_actual = [''get_calendar_events'', ''send_email'']\<rparr>]"
      "''send_email''" "(Map.empty(''send_email'' \<mapsto> 0), Map.empty(''send_email'' \<mapsto> 0))" 0]
  by simp

section \<open>The evaluation driver\<close>

lemma not_isl_Inr: "\<not> isl x \<Longrightarrow> \<exists>v. x = Inr v"
  by (cases x) simp_all

lemma metric_entry_raises: "isl found \<Longrightarrow> isl (metric_entry found eid)"
  by (cases found) (simp_all add: metric_entry_def)

lemma metric_entry_empty_expected: "isl (metric_entry found [])"
  by (cases found) (simp_all add: metric_entry_def recall_def py_truediv_def)


lemma evaluate_loop_Inr:
  "evaluate_loop tbl qs idx eids embs k acc = Inr d \<Longrightarrow>
     \<exists>ms ml mh. semantic d = semantic acc @ ms \<and> lexical d = lexical acc @ ml \<and>
       hybrid d = hybrid acc @ mh \<and>
       length ms = length qs \<and> length ml = length qs \<and> length mh = length qs \<and>
       (\<forall>i<length qs. idx + i < length eids \<and> idx + i < length embs \<and>
          metric_entry (search_semantic tbl (qs ! i) (embs ! (idx + i)) k) (eids ! (idx + i)) = Inr (ms ! i) \<and>
          metric_entry (search_lexical tbl (qs ! i) k) (eids ! (idx + i)) = Inr (ml ! i) \<and>
          metric_entry (search_hybrid tbl (qs ! i) (embs ! (idx + i)) k) (eids ! (idx + i)) = Inr (mh ! i))"
proof (induction qs arbitrary: idx acc)
  case Nil
  then show ?case by simp
next
  case (Cons query rest)
  from Cons.prems obtain m1 m2 m3 where
    i1: "idx < length eids" and i2: "idx < length embs" and
    e1: "metric_entry (search_semantic tbl query (embs ! idx) k) (eids ! idx) = Inr m1" and
    e2: "metric_entry (search_lexical tbl query k) (eids ! idx) = Inr m2" and
    e3: "metric_entry (search_hybrid tbl query (embs ! idx) k) (eids ! idx) = Inr m3" and
    r: "evaluate_loop tbl rest (Suc idx) eids embs k
          \<lparr>semantic = semantic acc @ [m1], lexical = lexical acc @ [m2], hybrid = hybrid acc @ [m3]\<rparr> = Inr d"
    by (auto simp: py_index_def split: sum.splits if_splits)
  from Cons.IH [OF r] obtain ms ml mh where
    s: "semantic d = (semantic acc @ [m1]) @ ms" "lexical d = (lexical acc @ [m2]) @ ml"
      "hybrid d = (hybrid acc @ [m3]) @ mh" and
    l: "length ms = length rest" "length ml = length rest" "length mh = length rest" and
    a: "\<forall>i<length rest. Suc idx + i < length eids \<and> Suc idx + i < length embs \<and>
          metric_entry (search_semantic tbl (rest ! i) (embs ! (Suc idx + i)) k) (eids ! (Suc idx + i)) = Inr (ms ! i) \<and>
          metric_entry (search_lexical tbl (rest ! i) k) (eids ! (Suc idx + i)) = Inr (ml ! i) \<and>
          metric_entry (search_hybrid tbl (rest ! i) (embs ! (Suc idx + i)) k) (eids ! (Suc idx + i)) = Inr (mh ! i)"
    by auto
  have "\<forall>i<length (query # rest). idx + i < length eids \<and> idx + i < length embs \<and>
          metric_entry (search_semantic tbl ((query # rest) ! i) (embs ! (idx + i)) k) (eids ! (idx + i)) = Inr ((m1 # ms) ! i) \<and>
          metric_entry (search_lexical tbl ((query # rest) ! i) k) (eids ! (idx + i)) = Inr ((m2 # ml) ! i) \<and>
          metric_entry (search_hybrid tbl ((query # rest) ! i) (embs ! (idx + i)) k) (eids ! (idx + i)) = Inr ((m3 # mh) ! i)"
  proof (intro allI impI)
    fix i assume "i < length (query # rest)"
    then show "idx + i < length eids \<and> idx + i < length embs \<and>
          metric_entry (search_semantic tbl ((query # rest) ! i) (embs ! (idx + i)) k) (eids ! (idx + i)) = Inr ((m1 # ms) ! i) \<and>
          metric_entry (search_lexical tbl ((query # rest) ! i) k) (eids ! (idx + i)) = Inr ((m2 # ml) ! i) \<and>
          metric_entry (search_hybrid tbl ((query # rest) ! i) (embs ! (idx + i)) k) (eids ! (idx + i)) = Inr ((m3 # mh) ! i)"
      using i1 i2 e1 e2 e3 a by (cases i) simp_all
  qed
  moreover have "semantic d = semantic acc @ (m1 # ms)" "lexical d = lexical acc @ (m2 # ml)"
    "hybrid d = hybrid acc @ (m3 # mh)"
    using s by simp_all
  moreover have "length (m1 # ms) = length (query # rest)" "length (m2 # ml) = length (query # rest)"
    "length (m3 # mh) = length (query # rest)"
    using l by simp_all
  ultimately show ?case by blast
qed




lemma evaluate_search_raises:
  assumes "i < length queries" and "i < length embeddings"
    and "isl (search_semantic tbl (queries ! i) (embeddings ! i) k) \<or>
         isl (search_lexical tbl (queries ! i) k) \<or>
         isl (search_hybrid tbl (queries ! i) (embeddings ! i) k)"
  shows "isl (evaluate_search tbl queries expected_ids embeddings k)"
proof (rule ccontr)
  assume "\<not> isl (evaluate_search tbl queries expected_ids embeddings k)"
  then obtain d where "evaluate_search tbl queries expected_ids embeddings k = Inr d"
    by (auto dest: not_isl_Inr)
  then have "evaluate_loop tbl queries 0 expected_ids embeddings k
      \<lparr>semantic = [], lexical = [], hybrid = []\<rparr> = Inr d"
    by (simp add: evaluate_search_def)
  from evaluate_loop_Inr [OF this] assms(1) have
    "\<not> isl (metric_entry (search_semantic tbl (queries ! i) (embeddings ! i) k) (expected_ids ! i))"
    "\<not> isl (metric_entry (search_lexical tbl (queries ! i) k) (expected_ids ! i))"
    "\<not> isl (metric_entry (search_hybrid tbl (queries ! i) (embeddings ! i) k) (expected_ids ! i))"
    by auto
  with assms(3) show False
    by (auto dest: metric_entry_raises)
qed



lemma run_loop_Inr:
  "run_loop tbl queries expected_ids embeddings ks acc = Inr rows \<Longrightarrow>
     (\<forall>k \<in> set ks. \<not> isl (evaluate_search tbl queries expected_ids embeddings k)) \<and>
     rows = acc @ concat (map (\<lambda>k. summary_rows k
       (aggregate_metrics (projr (evaluate_search tbl queries expected_ids embeddings k)))) ks)"
proof (induction ks arbitrary: acc)
  case Nil
  then show ?case by simp
next
  case (Cons k ks)
  from Cons.prems obtain d where
    d: "evaluate_search tbl queries expected_ids embeddings k = Inr d" and
    r: "run_loop tbl queries expected_ids embeddings ks (acc @ summary_rows k (aggregate_metrics d)) = Inr rows"
    by (auto split: sum.splits)
  from Cons.IH [OF r] d show ?case by simp
qed





lemma gather_raises: "gather rs out \<Longrightarrow> Inl e \<in> set rs \<Longrightarrow> isl out"
  by (induction rule: gather.induct) (auto simp: list_all_iff ListMem_iff)

text \<open>
  C4. The claim is that a failing adapter call is recorded as a total miss and the run
  goes on to a complete report. Nothing in \<open>evaluate_search\<close> or in the cell that runs the
  experiment catches an exception: with a hybrid search that times out on the second
  query, the run over \<open>k = 3, 5, 10\<close> ends with that exception and gives no row at all.
\<close>

theorem adapter_error_ends_run_counterexample:
  "run_experiment
     \<lparr>vector_search = (\<lambda>(e::nat) k. Inr [''78'', ''154'']),
      fts_search = (\<lambda>q k. Inr [''154'']),
      hybrid_search = (\<lambda>q e k. if q = ''red dress'' then Inl (External ''timeout'') else Inr [''78''])\<rparr>
     [''lace top'', ''red dress''] [[''78''], [''154'']] [0, 1] [3, 5, 10] = Inl (External ''timeout'')"
  by (simp add: run_experiment_def evaluate_search_def py_index_def metric_entry_def recall_def
      mrr_def py_truediv_def search_semantic_def search_lexical_def search_hybrid_def
      sanitize_query_def)

text \<open>
  C4, as amended. If one adapter call of the run (a strategy, on a configured \<open>k\<close> and a
  query) raises, the cell is not recorded and the driver does not go on: the run ends
  with an exception and gives no report. The same holds for the test run of the tool
  notebook: when one call of \<open>process_user_query\<close> raises, \<open>gather\<close> raises and no data frame
  is built. A report is produced only by a run in which no call raises.
\<close>

theorem adapter_error_ends_run:
  "(k \<in> set k_values \<and> i < length queries \<and> i < length embeddings \<and>
      (isl (search_semantic tbl (queries ! i) (embeddings ! i) k) \<or>
       isl (search_lexical tbl (queries ! i) k) \<or>
       isl (search_hybrid tbl (queries ! i) (embeddings ! i) k))
    \<longrightarrow> isl (run_experiment tbl queries expected_ids embeddings k_values)) \<and>
   (Inl e \<in> set (map (\<lambda>(query, _). process_user_query query) tests) \<and>
      run_tests process_user_query tests out
    \<longrightarrow> isl out)"
proof (intro conjI impI)
  assume h: "k \<in> set k_values \<and> i < length queries \<and> i < length embeddings \<and>
      (isl (search_semantic tbl (queries ! i) (embeddings ! i) k) \<or>
       isl (search_lexical tbl (queries ! i) k) \<or>
       isl (search_hybrid tbl (queries ! i) (embeddings ! i) k))"
  then have f: "isl (evaluate_search tbl queries expected_ids embeddings k)"
    using evaluate_search_raises [of i queries embeddings tbl k expected_ids] by simp
  show "isl (run_experiment tbl queries expected_ids embeddings k_values)"
  proof (rule ccontr)
    assume "\<not> isl (run_experiment tbl queries expected_ids embeddings k_values)"
    then obtain rows where "run_loop tbl queries expected_ids embeddings k_values [] = Inr rows"
      by (auto simp: run_experiment_def dest: not_isl_Inr)
    from run_loop_Inr [OF this] h f show False by auto
  qed
next
  assume h: "Inl e \<in> set (map (\<lambda>(query, _). process_user_query query) tests) \<and>
      run_tests process_user_query tests out"
  then have "run_tests process_user_query tests out" by simp
  then show "isl out"
  proof (cases rule: run_tests.cases)
    case (run_tests_df results)
    with h gather_raises [of "map (\<lambda>(query, _). process_user_query query) tests" "Inr results" e]
    show ?thesis by simp
  next
    case (run_tests_raise e')
    then show ?thesis by simp
  qed
qed

theorem adapter_error_ends_run_witness:
  "(10::int) \<in> set [3, 5, 10] \<and> (1::nat) < length [''lace top'', ''red dress''] \<and>
   isl (search_hybrid
     \<lparr>vector_search = (\<lambda>(e::nat) k. Inr [''78'', ''154'']),
      fts_search = (\<lambda>q k. Inr [''154'']),
      hybrid_search = (\<lambda>q e k. if q = ''red dress'' then Inl (External ''timeout'') else Inr [''78''])\<rparr>
     ([''lace top'', ''red dress''] ! 1) ([0, 1] ! 1) 10) \<and>
   isl (run_experiment
     \<lparr>vector_search = (\<lambda>(e::nat) k. Inr [''78'', ''154'']),
      fts_search = (\<lambda>q k. Inr [''154'']),
      hybrid_search = (\<lambda>q e k. if q = ''red dress'' then Inl (External ''timeout'') else Inr [''78''])\<rparr>
     [''lace top'', ''red dress''] [[''78''], [''154'']] [0, 1] [3, 5, 10]) \<and>
   run_tests (\<lambda>query. if query = ''send the agenda'' then Inl (External ''rate limit'') else Inr [])
     [(''what meetings'', [''get_calendar_events'']), (''send the agenda'', [''send_email''])]
     (Inl (External ''rate limit'')) \<and>
   isl (Inl (External ''rate limit'') :: error + string df_row list)"
proof -
  let ?tbl = "\<lparr>vector_search = (\<lambda>(e::nat) k. Inr [''78'', ''154'']),
      fts_search = (\<lambda>q k. Inr [''154'']),
      hybrid_search = (\<lambda>q e k. if q = ''red dress'' then Inl (External ''timeout'') else Inr [''78''])\<rparr>"
  let ?p = "\<lambda>query. if query = ''send the agenda'' then Inl (External ''rate limit'') else Inr ([] :: output_item list)"
  let ?tests = "[(''what meetings'', [''get_calendar_events'']), (''send the agenda'', [''send_email''])]"
  have s: "isl (search_hybrid ?tbl ([''lace top'', ''red dress''] ! 1) ([0, 1] ! 1) 10)"
    by (simp add: search_hybrid_def sanitize_query_def)
  have m: "Inl (External ''rate limit'') \<in> set (map (\<lambda>(query, _). ?p query) ?tests)"
    by simp
  then have "gather (map (\<lambda>(query, _). ?p query) ?tests) (Inl (External ''rate limit''))"
    by (intro gather_raise) (simp only: ListMem_iff)
  then have r: "run_tests ?p ?tests (Inl (External ''rate limit''))"
    by (rule run_tests_raise)
  from adapter_error_ends_run [of 10 "[3, 5, 10]" 1 "[''lace top'', ''red dress'']" "[0, 1]" ?tbl
      "[[''78''], [''154'']]" "External ''rate limit''" ?p ?tests "Inl (External ''rate limit'')"] s m r
  show ?thesis by simp
qed






end
